theory Spec2Isabelle
  imports Main "HOL-Library.AList"
begin

section \<open>The Pipeline broker: data model\<close>

text \<open>
  The broker is the class \<^verbatim>\<open>TerminalManager\<close> of \<^verbatim>\<open>src/pipeline.py\<close>. Its state is the two
  dictionaries \<^verbatim>\<open>self.terminals\<close> (the Registry) and \<^verbatim>\<open>self.completion_callbacks\<close> (the
  Callback Table).

  Modelling decisions, all visible in the definitions below:
  \<^item> A client message is what \<^verbatim>\<open>json.loads\<close> returns, and the handlers read it only through
    \<^verbatim>\<open>message.get(key)\<close>: every field is a JSON value, \<open>JNull\<close> being Python's \<^verbatim>\<open>None\<close> (key
    absent, or null). JSON numbers with a fraction or an exponent are not modelled.
  \<^item> A Python dictionary keeps its keys in insertion order, assigning to an existing key
    keeps the key's place and the key object, \<^verbatim>\<open>del\<close> removes the key, and a list or a
    dictionary used as a key raises \<^verbatim>\<open>TypeError\<close>. Keys are compared with \<^verbatim>\<open>==\<close>, for which
    \<^verbatim>\<open>True\<close> is \<^verbatim>\<open>1\<close> and \<^verbatim>\<open>False\<close> is \<^verbatim>\<open>0\<close>.
  \<^item> A client socket is a number. The sockets on which \<^verbatim>\<open>send\<close> raises (closed by the broker,
    or dead peers) are the set \<open>broken\<close> of the state.
  \<^item> Every call of \<^verbatim>\<open>socket.send\<close> made by the broker is appended to the list \<open>sendlog\<close>,
    with the socket, the message and whether the call returned (\<open>True\<close>) or raised.
  \<^item> \<^verbatim>\<open>json.dumps\<close> raises \<^verbatim>\<open>RecursionError\<close> on a value that is nested too deeply for the
    broker's interpreter; the deepest nesting it encodes is \<open>dumps_limit\<close> of the state.
    Formatting a received value in an f-string does not raise: its recursion is no deeper
    than that of the decoder that produced the value.
  \<^item> A handler returns the new state and whether it returned or raised: what a handler
    did before an exception stays done.
  \<^item> One message is processed at a time (the threads of the source are not modelled).
\<close>

datatype json =
    JNull
  | JBool bool
  | JInt int
  | JStr string
  | JArr "json list"
  | JObj "(string \<times> json) list"

type_synonym sock = nat

datatype exn = OSError | TypeError | RecursionError

datatype outcome = Returned | Raised exn

text \<open>A value of \<^verbatim>\<open>self.terminals\<close>: \<^verbatim>\<open>{'socket': ..., 'pid': ..., 'cwd': ...}\<close>.\<close>

record term_entry =
  socket :: sock
  pid :: json
  cwd :: json

text \<open>The messages the broker writes to clients.\<close>

datatype out_msg =
    Registered json
      \<comment> \<open>\<^verbatim>\<open>{'status': 'registered', 'name': term_name}\<close>\<close>
  | Message json
      \<comment> \<open>\<^verbatim>\<open>{'type': 'message', 'content': content}\<close>\<close>
  | Execute json json
      \<comment> \<open>\<^verbatim>\<open>{'type': 'execute', 'command': command, 'callback': callback_terminal}\<close>\<close>
  | Callback json json json
      \<comment> \<open>\<^verbatim>\<open>{'type': 'callback', 'from_terminal': terminal, 'command': command, 'result': result}\<close>\<close>
  | Listing "json list"
      \<comment> \<open>\<^verbatim>\<open>{'type': 'list', 'terminals': terminal_list}\<close>\<close>

text \<open>A decoded client message, as the handlers read it.\<close>

record message =
  m_type :: json
  m_name :: json
  m_pid :: json
  m_cwd :: "json option"  \<comment> \<open>\<open>None\<close>: the key is absent, \<^verbatim>\<open>get\<close> takes its default\<close>
  m_target :: json
  m_content :: json
  m_command :: json
  m_callback :: json
  m_terminal :: json
  m_result :: json

record broker =
  terminals :: "(json \<times> term_entry) list"
  completion_callbacks :: "(string \<times> json) list"
  broken :: "sock set"
  sendlog :: "(sock \<times> out_msg \<times> bool) list"
  getcwd :: string  \<comment> \<open>what \<^verbatim>\<open>os.getcwd()\<close> returns in the broker process\<close>
  dumps_limit :: nat  \<comment> \<open>the deepest nesting of a client value that \<^verbatim>\<open>json.dumps\<close> encodes\<close>
  py_repr :: "json \<Rightarrow> string"  \<comment> \<open>what \<^verbatim>\<open>str\<close> returns on a list or a dictionary\<close>

section \<open>Python values\<close>

text \<open>
  Python's truth value (\<^verbatim>\<open>if term_name:\<close>, \<^verbatim>\<open>if callback_terminal:\<close>): \<^verbatim>\<open>None\<close>, \<^verbatim>\<open>False\<close>,
  zero, and the empty string, list and dictionary are false.
\<close>

fun truthy :: "json \<Rightarrow> bool" where
  "truthy JNull = False"
| "truthy (JBool b) = b"
| "truthy (JInt i) = (i \<noteq> 0)"
| "truthy (JStr x) = (x \<noteq> [])"
| "truthy (JArr xs) = (xs \<noteq> [])"
| "truthy (JObj kvs) = (kvs \<noteq> [])"

text \<open>Lists and dictionaries are unhashable: as a dictionary key they raise \<^verbatim>\<open>TypeError\<close>.\<close>

fun hashable :: "json \<Rightarrow> bool" where
  "hashable (JArr xs) = False"
| "hashable (JObj kvs) = False"
| "hashable j = True"

text \<open>Two keys are the same key when they are equal after \<^verbatim>\<open>True\<close> and \<^verbatim>\<open>False\<close> are read as 1 and 0.\<close>

fun norm_key :: "json \<Rightarrow> json" where
  "norm_key (JBool b) = JInt (if b then 1 else 0)"
| "norm_key j = j"

definition key_eq :: "json \<Rightarrow> json \<Rightarrow> bool" where
  "key_eq a b = (norm_key a = norm_key b)"

text \<open>
  \<^verbatim>\<open>d.get(k)\<close>, \<^verbatim>\<open>d[k] = v\<close> and \<^verbatim>\<open>del d[k]\<close> for a hashable key. The handlers delete a key
  only after they have found it; a dictionary never holds two equal keys, so removing every
  equal key removes that one.
\<close>

fun dict_get :: "(json \<times> 'v) list \<Rightarrow> json \<Rightarrow> 'v option" where
  "dict_get [] k = None"
| "dict_get (p # d) k = (if key_eq (fst p) k then Some (snd p) else dict_get d k)"

fun dict_set :: "(json \<times> 'v) list \<Rightarrow> json \<Rightarrow> 'v \<Rightarrow> (json \<times> 'v) list" where
  "dict_set [] k v = [(k, v)]"
| "dict_set (p # d) k v = (if key_eq (fst p) k then (fst p, v) # d else p # dict_set d k v)"

definition dict_del :: "(json \<times> 'v) list \<Rightarrow> json \<Rightarrow> (json \<times> 'v) list" where
  "dict_del d k = filter (\<lambda>p. \<not> key_eq (fst p) k) d"

text \<open>The nesting depth of a value: 0 for a value that is neither a list nor a dictionary.\<close>

fun depth :: "json \<Rightarrow> nat" where
  "depth (JArr xs) = Suc (foldr max (map depth xs) 0)"
| "depth (JObj kvs) = Suc (foldr max (map (\<lambda>kv. depth (snd kv)) kvs) 0)"
| "depth j = 0"

text \<open>
  The deepest client value in a message of the broker. \<^verbatim>\<open>json.dumps\<close> is called at the same
  stack depth in every handler, and the client values are the values of the message's keys,
  so one limit serves all messages. The names of a list reply are Registry keys, which are
  neither lists nor dictionaries.
\<close>

fun msg_depth :: "out_msg \<Rightarrow> nat" where
  "msg_depth (Registered n) = depth n"
| "msg_depth (Message c) = depth c"
| "msg_depth (Execute c cb) = max (depth c) (depth cb)"
| "msg_depth (Callback t c r) = max (depth t) (max (depth c) (depth r))"
| "msg_depth (Listing ns) = foldr max (map depth ns) 0"

text \<open>\<^verbatim>\<open>str\<close> of a natural number and of an integer.\<close>

fun nat_digits :: "nat \<Rightarrow> string" where
  "nat_digits n =
     (if n < 10 then [''0123456789'' ! n]
      else nat_digits (n div 10) @ [''0123456789'' ! (n mod 10)])"

definition int_str :: "int \<Rightarrow> string" where
  "int_str i = (if i < 0 then CHR ''-'' # nat_digits (nat (- i)) else nat_digits (nat i))"

text \<open>
  How an f-string formats a value (\<^verbatim>\<open>str\<close>); the text of a list or a dictionary is left to
  the parameter \<open>r\<close>.
\<close>

fun py_str :: "(json \<Rightarrow> string) \<Rightarrow> json \<Rightarrow> string" where
  "py_str r JNull = ''None''"
| "py_str r (JBool b) = (if b then ''True'' else ''False'')"
| "py_str r (JInt i) = int_str i"
| "py_str r (JStr x) = x"
| "py_str r (JArr xs) = r (JArr xs)"
| "py_str r (JObj kvs) = r (JObj kvs)"

section \<open>The broker's operations\<close>

text \<open>\<^verbatim>\<open>sock.send(data)\<close>: raises on a broken socket.\<close>

definition sock_send :: "broker \<Rightarrow> sock \<Rightarrow> out_msg \<Rightarrow> broker \<times> outcome" where
  "sock_send s k msg =
     (if k \<in> broken s
      then (s\<lparr>sendlog := sendlog s @ [(k, msg, False)]\<rparr>, Raised OSError)
      else (s\<lparr>sendlog := sendlog s @ [(k, msg, True)]\<rparr>, Returned))"

text \<open>
  \<^verbatim>\<open>sock.send(json.dumps(msg).encode())\<close>: \<^verbatim>\<open>json.dumps\<close> is evaluated first, and when it
  raises, \<^verbatim>\<open>send\<close> is not called.
\<close>

definition send_json :: "broker \<Rightarrow> sock \<Rightarrow> out_msg \<Rightarrow> broker \<times> outcome" where
  "send_json s k msg =
     (if dumps_limit s < msg_depth msg then (s, Raised RecursionError)
      else sock_send s k msg)"

text \<open>The key of the Callback Table: \<^verbatim>\<open>f"{target}:{command}"\<close>.\<close>

definition callback_key :: "broker \<Rightarrow> json \<Rightarrow> json \<Rightarrow> string" where
  "callback_key s t c = py_str (py_repr s) t @ '':'' @ py_str (py_repr s) c"

text \<open>\<^verbatim>\<open>TerminalManager._register_terminal\<close>\<close>

definition register_terminal :: "broker \<Rightarrow> message \<Rightarrow> sock \<Rightarrow> broker \<times> outcome" where
  "register_terminal s m client_socket =
     (let term_name = m_name m in
      if truthy term_name then
        if hashable term_name then
          send_json
            (s\<lparr>terminals := dict_set (terminals s) term_name
                  \<lparr>socket = client_socket, pid = m_pid m,
                   cwd = (case m_cwd m of None \<Rightarrow> JStr (getcwd s) | Some c \<Rightarrow> c)\<rparr>\<rparr>)
            client_socket (Registered term_name)
        else (s, Raised TypeError)
      else (s, Returned))"

text \<open>\<^verbatim>\<open>TerminalManager._send_to_terminal\<close>\<close>

definition send_to_terminal :: "broker \<Rightarrow> message \<Rightarrow> broker \<times> outcome" where
  "send_to_terminal s m =
     (let target = m_target m; content = m_content m in
      if hashable target then
        (case dict_get (terminals s) target of
           None \<Rightarrow> (s, Returned)
         | Some e \<Rightarrow>
             (case send_json s (socket e) (Message content) of
                (s', Returned) \<Rightarrow> (s', Returned)
              | (s', Raised x) \<Rightarrow>
                  (s'\<lparr>terminals := dict_del (terminals s') target\<rparr>, Returned)))
      else (s, Raised TypeError))"

text \<open>\<^verbatim>\<open>TerminalManager._execute_command\<close>\<close>

definition execute_command :: "broker \<Rightarrow> message \<Rightarrow> broker \<times> outcome" where
  "execute_command s m =
     (let target = m_target m; command = m_command m; callback_terminal = m_callback m in
      if hashable target then
        (case dict_get (terminals s) target of
           None \<Rightarrow> (s, Returned)
         | Some e \<Rightarrow>
             (let s1 =
                    (if truthy callback_terminal
                     then s\<lparr>completion_callbacks :=
                              AList.update (callback_key s target command) callback_terminal
                                (completion_callbacks s)\<rparr>
                     else s)
              in case send_json s1 (socket e) (Execute command callback_terminal) of
                   (s', Returned) \<Rightarrow> (s', Returned)
                 | (s', Raised x) \<Rightarrow>
                     (s'\<lparr>terminals := dict_del (terminals s') target\<rparr>, Returned)))
      else (s, Raised TypeError))"

text \<open>\<^verbatim>\<open>TerminalManager._handle_completion\<close>\<close>

definition handle_completion :: "broker \<Rightarrow> message \<Rightarrow> broker \<times> outcome" where
  "handle_completion s m =
     (let terminal = m_terminal m; command = m_command m; result = m_result m;
          key = callback_key s terminal command
      in case map_of (completion_callbacks s) key of
           None \<Rightarrow> (s, Returned)
         | Some callback_terminal \<Rightarrow>
             if hashable callback_terminal then
               (let s1 =
                      (case dict_get (terminals s) callback_terminal of
                         None \<Rightarrow> s
                       | Some e \<Rightarrow>
                           fst (send_json s (socket e) (Callback terminal command result)))
                in (s1\<lparr>completion_callbacks :=
                         AList.delete key (completion_callbacks s1)\<rparr>, Returned))
             else (s, Raised TypeError))"

text \<open>\<^verbatim>\<open>TerminalManager._list_terminals\<close>\<close>

definition list_terminals :: "broker \<Rightarrow> sock \<Rightarrow> broker \<times> outcome" where
  "list_terminals s client_socket =
     send_json s client_socket (Listing (map fst (terminals s)))"

text \<open>\<^verbatim>\<open>TerminalManager._process_message\<close>: an unknown or absent type is ignored.\<close>

definition process_message :: "broker \<Rightarrow> message \<Rightarrow> sock \<Rightarrow> broker \<times> outcome" where
  "process_message s m client_socket =
     (let msg_type = m_type m in
      if msg_type = JStr ''register'' then register_terminal s m client_socket
      else if msg_type = JStr ''send'' then send_to_terminal s m
      else if msg_type = JStr ''execute'' then execute_command s m
      else if msg_type = JStr ''complete'' then handle_completion s m
      else if msg_type = JStr ''list'' then list_terminals s client_socket
      else (s, Returned))"

text \<open>
  \<^verbatim>\<open>TerminalManager._handle_client\<close>: the loop over what \<^verbatim>\<open>recv\<close> returns on one connection.
  \<open>Data m\<close> is a chunk that decodes to the message \<open>m\<close>; \<open>Malformed\<close> is a chunk on which
  \<^verbatim>\<open>json.loads\<close> (or the first \<^verbatim>\<open>message.get\<close>) raises. The end of the list is the peer closing
  the connection or a failing \<^verbatim>\<open>recv\<close>. Every way out of the loop runs the \<^verbatim>\<open>finally\<close> clause,
  \<^verbatim>\<open>client_socket.close()\<close>, after which a \<^verbatim>\<open>send\<close> on the socket raises.
\<close>

datatype chunk = Data message | Malformed

definition close_socket :: "broker \<Rightarrow> sock \<Rightarrow> broker" where
  "close_socket s client_socket = s\<lparr>broken := insert client_socket (broken s)\<rparr>"

fun handle_client :: "broker \<Rightarrow> sock \<Rightarrow> chunk list \<Rightarrow> broker" where
  "handle_client s client_socket [] = close_socket s client_socket"
| "handle_client s client_socket (Malformed # rest) = close_socket s client_socket"
| "handle_client s client_socket (Data m # rest) =
     (case process_message s m client_socket of
        (s', Returned) \<Rightarrow> handle_client s' client_socket rest
      | (s', Raised x) \<Rightarrow> close_socket s' client_socket)"

text \<open>
  The broker as \<^verbatim>\<open>TerminalManager.__init__\<close> leaves it, in a process with the working
  directory \<open>d\<close>, the encoder limit \<open>n\<close> and the formatting \<open>r\<close> of lists and dictionaries.
\<close>

definition init :: "string \<Rightarrow> nat \<Rightarrow> (json \<Rightarrow> string) \<Rightarrow> broker" where
  "init d n r = \<lparr>terminals = [], completion_callbacks = [], broken = {}, sendlog = [],
     getcwd = d, dumps_limit = n, py_repr = r\<rparr>"

section \<open>Messages and states of the examples\<close>

text \<open>A message with every key absent, and the messages of the protocol with string fields.\<close>

definition no_fields :: message where
  "no_fields = \<lparr>m_type = JNull, m_name = JNull, m_pid = JNull, m_cwd = None, m_target = JNull,
     m_content = JNull, m_command = JNull, m_callback = JNull, m_terminal = JNull, m_result = JNull\<rparr>"

definition reg_msg :: "string \<Rightarrow> message" where
  "reg_msg n = no_fields\<lparr>m_type := JStr ''register'', m_name := JStr n\<rparr>"

definition send_msg :: "string \<Rightarrow> json \<Rightarrow> message" where
  "send_msg t c = no_fields\<lparr>m_type := JStr ''send'', m_target := JStr t, m_content := c\<rparr>"

definition exec_msg :: "string \<Rightarrow> string \<Rightarrow> json \<Rightarrow> message" where
  "exec_msg t c cb = no_fields\<lparr>m_type := JStr ''execute'', m_target := JStr t,
     m_command := JStr c, m_callback := cb\<rparr>"

definition complete_msg :: "string \<Rightarrow> string \<Rightarrow> json \<Rightarrow> message" where
  "complete_msg t c r = no_fields\<lparr>m_type := JStr ''complete'', m_terminal := JStr t,
     m_command := JStr c, m_result := r\<rparr>"

text \<open>
  The Registry never holds two equal keys, and its keys are hashable. This holds in the
  initial state and every operation keeps it (lemmas \<open>registry_ok_init\<close>,
  \<open>registry_ok_process\<close> and \<open>registry_ok_handle_client\<close> below).
\<close>

definition registry_ok :: "broker \<Rightarrow> bool" where
  "registry_ok s = (distinct (map (\<lambda>p. norm_key (fst p)) (terminals s))
                    \<and> list_all (\<lambda>p. hashable (fst p)) (terminals s))"

text \<open>A broker that has just started.\<close>

definition some_repr :: "json \<Rightarrow> string" where
  "some_repr j = ''[...]''"

definition fresh :: broker where
  "fresh = init ''/'' 900 some_repr"

definition entry :: "sock \<Rightarrow> term_entry" where
  "entry k = \<lparr>socket = k, pid = JNull, cwd = JStr ''/''\<rparr>"

text \<open>Terminals A and B have registered on the sockets 3 and 4.\<close>

definition two_terminals :: broker where
  "two_terminals = fresh
     \<lparr>terminals := [(JStr ''A'', entry 3), (JStr ''B'', entry 4)],
      sendlog := [(3, Registered (JStr ''A''), True), (4, Registered (JStr ''B''), True)]\<rparr>"

text \<open>The same, when the peer of B has gone away and a \<^verbatim>\<open>send\<close> on its socket raises.\<close>

definition dead_target :: broker where
  "dead_target = two_terminals\<lparr>broken := {4}\<rparr>"

text \<open>A has asked B to run \<^verbatim>\<open>ls\<close> and to be called back.\<close>

definition pending_callback :: broker where
  "pending_callback = two_terminals
     \<lparr>completion_callbacks := [(''B:ls'', JStr ''A'')],
      sendlog := sendlog two_terminals @ [(4, Execute (JStr ''ls'') (JStr ''A''), True)]\<rparr>"

text \<open>The same, when the peer of A, the callback terminal, has gone away.\<close>

definition dead_callback :: broker where
  "dead_callback = pending_callback\<lparr>broken := {3}\<rparr>"

text \<open>Then B has asked A to run \<^verbatim>\<open>ls\<close> too: two entries in the Callback Table.\<close>

definition two_pending :: broker where
  "two_pending = two_terminals
     \<lparr>completion_callbacks := [(''B:ls'', JStr ''A''), (''A:ls'', JStr ''B'')],
      sendlog := sendlog two_terminals @ [(4, Execute (JStr ''ls'') (JStr ''A''), True),
        (3, Execute (JStr ''ls'') (JStr ''B''), True)]\<rparr>"

text \<open>Terminals A, B and C have registered on the sockets 3, 4 and 5.\<close>

definition three_terminals :: broker where
  "three_terminals = fresh
     \<lparr>terminals := [(JStr ''A'', entry 3), (JStr ''B'', entry 4), (JStr ''C'', entry 5)],
      sendlog := [(3, Registered (JStr ''A''), True), (4, Registered (JStr ''B''), True),
                  (5, Registered (JStr ''C''), True)]\<rparr>"


section \<open>Facts about dictionaries and keys\<close>

lemma key_eq_refl [simp]: "key_eq k k"
  by (simp add: key_eq_def)

lemma key_eq_JStr [simp]: "key_eq (JStr x) k = (k = JStr x)" "key_eq k (JStr x) = (k = JStr x)"
  by (cases k; auto simp: key_eq_def)+

lemma dict_get_None_iff: "dict_get d k = None \<longleftrightarrow> (\<forall>p \<in> set d. \<not> key_eq (fst p) k)"
  by (induction d) auto

lemma dict_get_set:
  "dict_get (dict_set d k v) k' = (if key_eq k k' then Some v else dict_get d k')"
  by (induction d) (auto simp: key_eq_def)

lemma dict_get_del:
  "dict_get (dict_del d k) k' = (if key_eq k k' then None else dict_get d k')"
  by (induction d) (auto simp: dict_del_def key_eq_def)

lemma dict_set_keys:
  "map fst (dict_set d k v) = (if dict_get d k = None then map fst d @ [k] else map fst d)"
  by (induction d) auto

lemma dict_set_norm_keys:
  "map (\<lambda>p. norm_key (fst p)) (dict_set d k v) =
     (if dict_get d k = None then map (\<lambda>p. norm_key (fst p)) d @ [norm_key k]
      else map (\<lambda>p. norm_key (fst p)) d)"
  by (induction d) auto

lemma distinct_dict_set:
  "distinct (map (\<lambda>p. norm_key (fst p)) d) \<Longrightarrow> distinct (map (\<lambda>p. norm_key (fst p)) (dict_set d k v))"
  by (auto simp: dict_set_norm_keys dict_get_None_iff key_eq_def)

lemma distinct_dict_del:
  "distinct (map (\<lambda>p. norm_key (fst p)) d) \<Longrightarrow> distinct (map (\<lambda>p. norm_key (fst p)) (dict_del d k))"
  by (simp add: dict_del_def distinct_map_filter)

lemma hashable_dict_set:
  "list_all (\<lambda>p. hashable (fst p)) d \<Longrightarrow> hashable k \<Longrightarrow> list_all (\<lambda>p. hashable (fst p)) (dict_set d k v)"
  by (induction d) auto

lemma hashable_dict_del:
  "list_all (\<lambda>p. hashable (fst p)) d \<Longrightarrow> list_all (\<lambda>p. hashable (fst p)) (dict_del d k)"
  by (simp add: dict_del_def list_all_iff)

lemma hashable_depth: "hashable j \<Longrightarrow> depth j = 0"
  by (cases j) auto

lemma keys_depth: "list_all (\<lambda>p. hashable (fst p)) d \<Longrightarrow> foldr max (map depth (map fst d)) 0 = 0"
  by (induction d) (auto simp: hashable_depth)

lemma one_entry_per_key:
  "distinct (map (\<lambda>p. norm_key (fst p)) d) \<Longrightarrow> dict_get d k = Some v
     \<Longrightarrow> length (filter (\<lambda>p. key_eq (fst p) k) d) = 1"
proof (induction d)
  case Nil
  then show ?case by simp
next
  case (Cons p d)
  show ?case
  proof (cases "key_eq (fst p) k")
    case True
    with Cons.prems(1) have "norm_key k \<notin> (\<lambda>p. norm_key (fst p)) ` set d"
      by (simp add: key_eq_def)
    then have "\<forall>q \<in> set d. \<not> key_eq (fst q) k"
      unfolding key_eq_def by (metis imageI)
    then have "filter (\<lambda>p. key_eq (fst p) k) d = []"
      by (simp add: filter_empty_conv)
    with True show ?thesis by simp
  next
    case False
    with Cons show ?thesis by simp
  qed
qed

lemma send_json_frame:
  "terminals (fst (send_json s k msg)) = terminals s"
  "completion_callbacks (fst (send_json s k msg)) = completion_callbacks s"
  "broken (fst (send_json s k msg)) = broken s"
  "dumps_limit (fst (send_json s k msg)) = dumps_limit s"
  "py_repr (fst (send_json s k msg)) = py_repr s"
  by (simp_all add: send_json_def sock_send_def)

text \<open>A string is cut at its first colon in one way only.\<close>

lemma colon_split_unique:
  "CHR '':'' \<notin> set a \<Longrightarrow> CHR '':'' \<notin> set b \<Longrightarrow> a @ CHR '':'' # x = b @ CHR '':'' # y
     \<Longrightarrow> a = b \<and> x = y"
proof (induction a arbitrary: b)
  case Nil
  then show ?case by (cases b) auto
next
  case (Cons c a)
  then show ?case by (cases b) auto
qed





section \<open>The Registry invariant\<close>

lemma registry_ok_send_json: "registry_ok (fst (send_json s k msg)) = registry_ok s"
  by (simp add: registry_ok_def send_json_frame)

lemma registry_ok_init: "registry_ok (init d n r)"
  by (simp add: registry_ok_def init_def)

lemma registry_ok_register: "registry_ok s \<Longrightarrow> registry_ok (fst (register_terminal s m k))"
  by (auto simp: register_terminal_def Let_def registry_ok_send_json)
     (auto simp: registry_ok_def distinct_dict_set hashable_dict_set)

lemma registry_ok_send: "registry_ok s \<Longrightarrow> registry_ok (fst (send_to_terminal s m))"
  by (auto simp: registry_ok_def send_to_terminal_def Let_def send_json_def sock_send_def
      distinct_dict_del hashable_dict_del split: option.splits)

lemma registry_ok_execute: "registry_ok s \<Longrightarrow> registry_ok (fst (execute_command s m))"
  by (auto simp: registry_ok_def execute_command_def Let_def send_json_def sock_send_def
      distinct_dict_del hashable_dict_del split: option.splits)

lemma registry_ok_complete: "registry_ok s \<Longrightarrow> registry_ok (fst (handle_completion s m))"
  by (auto simp: registry_ok_def handle_completion_def Let_def send_json_def sock_send_def
      split: option.splits)

lemma registry_ok_list: "registry_ok s \<Longrightarrow> registry_ok (fst (list_terminals s k))"
  by (simp add: list_terminals_def registry_ok_send_json)

lemma registry_ok_process: "registry_ok s \<Longrightarrow> registry_ok (fst (process_message s m k))"
  by (simp add: process_message_def Let_def registry_ok_register registry_ok_send
      registry_ok_execute registry_ok_complete registry_ok_list)

lemma registry_ok_close: "registry_ok (close_socket s k) = registry_ok s"
  by (simp add: registry_ok_def close_socket_def)

lemma registry_ok_handle_client: "registry_ok s \<Longrightarrow> registry_ok (handle_client s k cs)"
proof (induction s k cs rule: handle_client.induct)
  case (3 s k m rest)
  obtain s' r where p: "process_message s m k = (s', r)"
    by (cases "process_message s m k")
  with registry_ok_process [OF "3.prems", of m k] have ok: "registry_ok s'"
    by simp
  show ?case
  proof (cases r)
    case Returned
    with p ok "3.IH" show ?thesis by simp
  next
    case (Raised x)
    with p ok show ?thesis by (simp add: registry_ok_close)
  qed
qed (simp_all add: registry_ok_close)

section \<open>The states of the examples are reached\<close>

lemmas op_defs = process_message_def register_terminal_def send_to_terminal_def
  execute_command_def handle_completion_def list_terminals_def send_json_def sock_send_def
  callback_key_def dict_del_def close_socket_def Let_def

lemma two_terminals_reached:
  "fst (process_message (fst (process_message fresh (reg_msg ''A'') 3)) (reg_msg ''B'') 4)
     = two_terminals"
  by (simp add: process_message_def register_terminal_def send_json_def sock_send_def init_def
      reg_msg_def no_fields_def two_terminals_def fresh_def entry_def Let_def)

lemma three_terminals_reached:
  "fst (process_message two_terminals (reg_msg ''C'') 5) = three_terminals"
  by (simp add: two_terminals_def fresh_def init_def entry_def three_terminals_def
      reg_msg_def no_fields_def op_defs)

lemma pending_callback_reached:
  "fst (process_message two_terminals (exec_msg ''B'' ''ls'' (JStr ''A'')) 3) = pending_callback"
  by (simp add: two_terminals_def fresh_def init_def entry_def pending_callback_def
      exec_msg_def no_fields_def op_defs)

lemma two_pending_reached:
  "fst (process_message pending_callback (exec_msg ''A'' ''ls'' (JStr ''B'')) 4) = two_pending"
  by (simp add: pending_callback_def two_terminals_def fresh_def init_def entry_def
      two_pending_def exec_msg_def no_fields_def op_defs)

section \<open>Routing misses and ignored registrations\<close>

text \<open>
  Claim C7, as stated, fails for a target that is a JSON array or object. The test
  \<^verbatim>\<open>target in self.terminals\<close> is outside any \<^verbatim>\<open>try\<close>: with the target \<^verbatim>\<open>["ghost"]\<close>, which is
  not in the Registry, it raises \<^verbatim>\<open>TypeError\<close>, the exception leaves the handler, and
  \<^verbatim>\<open>_handle_client\<close> closes the sender's connection.
\<close>

theorem send_unhashable_target_raises:
  "process_message two_terminals
     (no_fields\<lparr>m_type := JStr ''send'', m_target := JArr [JStr ''ghost'']\<rparr>) 5
     = (two_terminals, Raised TypeError)
   \<and> handle_client two_terminals 5
       [Data (no_fields\<lparr>m_type := JStr ''send'', m_target := JArr [JStr ''ghost'']\<rparr>)]
     = two_terminals\<lparr>broken := {5}\<rparr>"
  by (simp add: two_terminals_def fresh_def init_def entry_def no_fields_def op_defs)

text \<open>
  Claim C7, amended. A \<^verbatim>\<open>send\<close> message whose target is hashable (a string, a number, a
  boolean, or absent) and not in the Registry is a silent no-op: the handler returns
  without an exception and the whole state is unchanged: no \<^verbatim>\<open>send\<close> call is made on any
  socket (nothing is delivered, the sender gets no reply and no error), and the Registry and
  the Callback Table are as before. A \<^verbatim>\<open>send\<close> message whose target is a JSON array or object
  raises \<^verbatim>\<open>TypeError\<close>: the state is unchanged as well and nothing is written, but the
  exception ends the sender's session, whose socket is closed.
\<close>

theorem send_unknown_target_noop:
  assumes "m_type m = JStr ''send''"
  shows "(hashable (m_target m) \<and> dict_get (terminals s) (m_target m) = None
            \<longrightarrow> process_message s m client_socket = (s, Returned))
       \<and> (\<not> hashable (m_target m)
            \<longrightarrow> process_message s m client_socket = (s, Raised TypeError)
              \<and> handle_client s client_socket (Data m # rest) = close_socket s client_socket)"
  using assms by (simp add: process_message_def send_to_terminal_def Let_def)

theorem send_unknown_target_noop_witness:
  "process_message two_terminals (send_msg ''ghost'' (JStr ''hi'')) 5 = (two_terminals, Returned)
   \<and> process_message two_terminals
       (no_fields\<lparr>m_type := JStr ''send'', m_target := JObj []\<rparr>) 5 = (two_terminals, Raised TypeError)"
  using send_unknown_target_noop [of "send_msg ''ghost'' (JStr ''hi'')" two_terminals 5 "[]"]
    send_unknown_target_noop [of "no_fields\<lparr>m_type := JStr ''send'', m_target := JObj []\<rparr>"
      two_terminals 5 "[]"]
  by (simp add: two_terminals_def fresh_def init_def entry_def send_msg_def
      no_fields_def)

text \<open>
  Claim C9. A \<^verbatim>\<open>register\<close> message whose name is missing or empty is a complete no-op: no
  Registry entry is created or changed and no \<^verbatim>\<open>{status: registered}\<close> reply is written
  (the send log, as the rest of the state, is unchanged).
\<close>

theorem register_without_name_noop:
  assumes "m_type m = JStr ''register''"
    and "m_name m = JNull \<or> m_name m = JStr []"
  shows "process_message s m client_socket = (s, Returned)"
  using assms by (auto simp: process_message_def register_terminal_def)

theorem register_without_name_noop_witness:
  "process_message two_terminals (no_fields\<lparr>m_type := JStr ''register'', m_name := JStr []\<rparr>) 5
     = (two_terminals, Returned)
   \<and> process_message two_terminals (no_fields\<lparr>m_type := JStr ''register''\<rparr>) 5
     = (two_terminals, Returned)"
  using register_without_name_noop
    [of "no_fields\<lparr>m_type := JStr ''register'', m_name := JStr []\<rparr>" two_terminals 5]
    register_without_name_noop [of "no_fields\<lparr>m_type := JStr ''register''\<rparr>" two_terminals 5]
  by (simp add: no_fields_def)

section \<open>Listing\<close>

text \<open>
  Claim C8. In every state of the Registry, processing a \<^verbatim>\<open>list\<close> message makes exactly one
  write, to the requesting socket, of the list of the Registry's keys in the Registry's own
  order (the order of first registration): each registered name is in the list exactly once
  and no other name is. (A name is registered when the Registry has a key equal to it; for
  strings that is the string itself.) The write raises when the requesting socket is
  broken, and the exception leaves the handler.
\<close>

theorem list_reply_registered_names:
  assumes "registry_ok s" and "m_type m = JStr ''list''"
  shows "process_message s m client_socket =
           (s\<lparr>sendlog := sendlog s @
                [(client_socket, Listing (map fst (terminals s)), client_socket \<notin> broken s)]\<rparr>,
            if client_socket \<in> broken s then Raised OSError else Returned)
         \<and> distinct (map fst (terminals s))
         \<and> (\<forall>n. dict_get (terminals s) n \<noteq> None
                \<longleftrightarrow> (\<exists>k \<in> set (map fst (terminals s)). key_eq k n))
         \<and> (\<forall>x. JStr x \<in> set (map fst (terminals s))
                \<longleftrightarrow> dict_get (terminals s) (JStr x) \<noteq> None)"
proof -
  have d: "foldr max (map depth (map fst (terminals s))) 0 = 0"
    using assms(1) keys_depth [of "terminals s"] by (simp add: registry_ok_def)
  have 1: "process_message s m client_socket =
           (s\<lparr>sendlog := sendlog s @
                [(client_socket, Listing (map fst (terminals s)), client_socket \<notin> broken s)]\<rparr>,
            if client_socket \<in> broken s then Raised OSError else Returned)"
    using assms(2) d by (simp add: process_message_def list_terminals_def send_json_def sock_send_def)
  have "distinct (map norm_key (map fst (terminals s)))"
    using assms(1) by (simp add: registry_ok_def comp_def)
  then have 2: "distinct (map fst (terminals s))"
    by (rule distinct_map [THEN iffD1, THEN conjunct1])
  have 3: "\<forall>n. dict_get (terminals s) n \<noteq> None
                \<longleftrightarrow> (\<exists>k \<in> set (map fst (terminals s)). key_eq k n)"
    by (auto simp: dict_get_None_iff)
  have 4: "\<forall>x. JStr x \<in> set (map fst (terminals s))
                \<longleftrightarrow> dict_get (terminals s) (JStr x) \<noteq> None"
    by (force simp: dict_get_None_iff)
  from 1 2 3 4 show ?thesis by blast
qed

theorem list_reply_registered_names_witness:
  "registry_ok two_terminals
   \<and> process_message two_terminals (no_fields\<lparr>m_type := JStr ''list''\<rparr>) 5 =
       (two_terminals\<lparr>sendlog := sendlog two_terminals @
           [(5, Listing [JStr ''A'', JStr ''B''], True)]\<rparr>, Returned)"
  using list_reply_registered_names [of two_terminals "no_fields\<lparr>m_type := JStr ''list''\<rparr>" 5]
  by (simp add: two_terminals_def fresh_def init_def entry_def no_fields_def registry_ok_def)

section \<open>Execute with a callback\<close>

text \<open>
  Claim C10. When an \<^verbatim>\<open>execute\<close> message with a non-empty callback targets a registered
  terminal, the callback entry is stored before the write to the target. If that write
  fails, the handler returns normally, the target is removed from the Registry, and the
  entry for (target, command) is in the Callback Table although the only write, the one to
  the target, failed (or was not even made, when \<^verbatim>\<open>json.dumps\<close> could not encode the
  message): nothing is rolled back.
\<close>

theorem execute_failed_write_keeps_callback:
  assumes "m_target m = target" and "hashable target"
    and "dict_get (terminals s) target = Some e"
    and "socket e \<in> broken s"
    and "m_callback m = cb" and "truthy cb"
  shows "snd (execute_command s m) = Returned
       \<and> dict_get (terminals (fst (execute_command s m))) target = None
       \<and> map_of (completion_callbacks (fst (execute_command s m)))
            (callback_key s target (m_command m)) = Some cb
       \<and> sendlog (fst (execute_command s m)) = sendlog s @
            (if dumps_limit s < msg_depth (Execute (m_command m) cb) then []
             else [(socket e, Execute (m_command m) cb, False)])"
  using assms
  by (simp add: execute_command_def send_json_def sock_send_def Let_def dict_get_del update_conv')

theorem execute_failed_write_keeps_callback_witness:
  "dict_get (terminals dead_target) (JStr ''B'') = Some (entry 4)
   \<and> 4 \<in> broken dead_target
   \<and> dict_get (terminals (fst (execute_command dead_target (exec_msg ''B'' ''ls'' (JStr ''A'')))))
        (JStr ''B'') = None
   \<and> map_of (completion_callbacks (fst (execute_command dead_target
        (exec_msg ''B'' ''ls'' (JStr ''A''))))) ''B:ls'' = Some (JStr ''A'')
   \<and> sendlog (fst (execute_command dead_target (exec_msg ''B'' ''ls'' (JStr ''A''))))
       = sendlog dead_target @ [(4, Execute (JStr ''ls'') (JStr ''A''), False)]"
  using execute_failed_write_keeps_callback
    [of "exec_msg ''B'' ''ls'' (JStr ''A'')" "JStr ''B''" dead_target "entry 4" "JStr ''A''"]
  by (simp add: dead_target_def two_terminals_def fresh_def init_def entry_def
      exec_msg_def no_fields_def callback_key_def)




section \<open>Completion\<close>




section \<open>The key of the Callback Table\<close>

text \<open>
  Claim C6, as stated, fails. The Callback Table is keyed by the one string
  \<^verbatim>\<open>f"{target}:{command}"\<close>, not by the pair. The distinct pairs (\<^verbatim>\<open>A\<close>, \<^verbatim>\<open>b:c\<close>) and
  (\<^verbatim>\<open>A:b\<close>, \<^verbatim>\<open>c\<close>) have the same key: after A was asked to run \<^verbatim>\<open>b:c\<close> with the callback
  terminal B, a \<^verbatim>\<open>complete\<close> for the terminal \<^verbatim>\<open>A:b\<close> and the command \<^verbatim>\<open>c\<close> finds that entry,
  has the callback written to B, and deletes the entry.
\<close>

theorem callback_key_collision:
  "(JStr ''A'', JStr ''b:c'') \<noteq> (JStr ''A:b'', JStr ''c'')
   \<and> sendlog (fst (handle_completion
        (fst (execute_command two_terminals (exec_msg ''A'' ''b:c'' (JStr ''B''))))
        (complete_msg ''A:b'' ''c'' JNull)))
      = sendlog two_terminals @ [(3, Execute (JStr ''b:c'') (JStr ''B''), True),
           (4, Callback (JStr ''A:b'') (JStr ''c'') JNull, True)]
   \<and> completion_callbacks (fst (handle_completion
        (fst (execute_command two_terminals (exec_msg ''A'' ''b:c'' (JStr ''B''))))
        (complete_msg ''A:b'' ''c'' JNull))) = []"
  by (simp add: two_terminals_def fresh_def init_def entry_def exec_msg_def
      no_fields_def complete_msg_def op_defs)

text \<open>
  Claim C6, amended. The Callback Table is keyed by the one string that
  \<^verbatim>\<open>f"{target}:{command}"\<close> gives; for a terminal name and a command that are both strings
  this is the name, a colon, the command. For pairs of a string terminal name that contains
  no colon and a string command, two pairs have the same key exactly when they are the same
  pair; so for two distinct such pairs, an \<^verbatim>\<open>execute\<close> for the one leaves the entry of the
  other as it is, and a \<^verbatim>\<open>complete\<close> for the one neither finds nor deletes the entry of the
  other. (Nothing is said of names with a colon, nor of terminals or commands that are
  absent or not strings: an absent command is formatted as \<^verbatim>\<open>None\<close>, like the string
  \<^verbatim>\<open>None\<close>.)
\<close>

theorem callback_key_colon_free:
  assumes "CHR '':'' \<notin> set t1" and "CHR '':'' \<notin> set t2"
    and "m_target m = JStr t1" and "m_command m = JStr c1"
    and "m_terminal mc = JStr t2" and "m_command mc = JStr c2"
  shows "callback_key s (JStr t1) (JStr c1) = t1 @ '':'' @ c1
       \<and> callback_key s (JStr t2) (JStr c2) = t2 @ '':'' @ c2
       \<and> (t1 @ '':'' @ c1 = t2 @ '':'' @ c2 \<longleftrightarrow> (t1, c1) = (t2, c2))
       \<and> ((t1, c1) \<noteq> (t2, c2) \<longrightarrow>
            map_of (completion_callbacks (fst (execute_command s m))) (t2 @ '':'' @ c2)
              = map_of (completion_callbacks s) (t2 @ '':'' @ c2)
          \<and> map_of (completion_callbacks (fst (handle_completion s mc))) (t1 @ '':'' @ c1)
              = map_of (completion_callbacks s) (t1 @ '':'' @ c1))"
proof -
  have inj: "t1 @ '':'' @ c1 = t2 @ '':'' @ c2 \<longleftrightarrow> (t1, c1) = (t2, c2)"
    using colon_split_unique [OF assms(1,2), of c1 c2] by auto
  have "map_of (completion_callbacks (fst (execute_command s m))) (t2 @ '':'' @ c2)
          = map_of (completion_callbacks s) (t2 @ '':'' @ c2)"
    if "(t1, c1) \<noteq> (t2, c2)"
    using that inj assms(3,4)
    by (auto simp: execute_command_def callback_key_def send_json_def sock_send_def Let_def
        update_conv' split: option.splits)
  moreover have "map_of (completion_callbacks (fst (handle_completion s mc))) (t1 @ '':'' @ c1)
              = map_of (completion_callbacks s) (t1 @ '':'' @ c1)"
    if "(t1, c1) \<noteq> (t2, c2)"
    using that inj assms(5,6)
    by (auto simp: handle_completion_def callback_key_def send_json_def sock_send_def Let_def
        delete_conv split: option.splits)
  ultimately show ?thesis using inj by (simp add: callback_key_def)
qed

theorem callback_key_colon_free_witness:
  "CHR '':'' \<notin> set ''A'' \<and> CHR '':'' \<notin> set ''B'' \<and> (''A'', ''ls'') \<noteq> (''B'', ''ls'')
   \<and> callback_key two_pending (JStr ''A'') (JStr ''ls'') = ''A:ls''
   \<and> map_of (completion_callbacks (fst (execute_command two_pending
        (exec_msg ''A'' ''ls'' (JStr ''A''))))) ''B:ls'' = Some (JStr ''A'')
   \<and> map_of (completion_callbacks (fst (handle_completion two_pending
        (complete_msg ''B'' ''ls'' JNull)))) ''A:ls'' = Some (JStr ''B'')"
  using callback_key_colon_free [of "''A''" "''B''" "exec_msg ''A'' ''ls'' (JStr ''A'')" "''ls''"
      "complete_msg ''B'' ''ls'' JNull" "''ls''" two_pending]
  by (simp add: two_pending_def two_terminals_def fresh_def init_def entry_def
      exec_msg_def no_fields_def complete_msg_def)

section \<open>Registration\<close>

text \<open>
  Claim C3. Registering a name that is already in the Registry overwrites its entry with
  the new socket: there is no collision error (the handler replies \<^verbatim>\<open>registered\<close> on the new
  socket), the Registry's list of names is unchanged, it holds exactly one entry of that
  name, and a following \<^verbatim>\<open>send\<close> to the name makes no write but to the new socket: one
  write of the message, or none when \<^verbatim>\<open>json.dumps\<close> cannot encode the message.
\<close>

theorem reregister_overwrites:
  assumes "registry_ok s"
    and "m_name m = name" and "truthy name" and "hashable name"
    and "dict_get (terminals s) name = Some old"
    and "m_target m2 = name"
  shows "snd (register_terminal s m k) = (if k \<in> broken s then Raised OSError else Returned)
       \<and> sendlog (fst (register_terminal s m k)) = sendlog s @ [(k, Registered name, k \<notin> broken s)]
       \<and> map_option socket (dict_get (terminals (fst (register_terminal s m k))) name) = Some k
       \<and> map fst (terminals (fst (register_terminal s m k))) = map fst (terminals s)
       \<and> length (filter (\<lambda>p. key_eq (fst p) name) (terminals (fst (register_terminal s m k)))) = 1
       \<and> registry_ok (fst (register_terminal s m k))
       \<and> sendlog (fst (send_to_terminal (fst (register_terminal s m k)) m2)) =
            sendlog (fst (register_terminal s m k)) @
              (if dumps_limit s < depth (m_content m2) then []
               else [(k, Message (m_content m2), k \<notin> broken s)])"
proof -
  let ?s1 = "fst (register_terminal s m k)"
  let ?e = "\<lparr>socket = k, pid = m_pid m,
              cwd = (case m_cwd m of None \<Rightarrow> JStr (getcwd s) | Some c \<Rightarrow> c)\<rparr>"
  have d0: "depth name = 0"
    using assms(4) by (rule hashable_depth)
  have t: "terminals ?s1 = dict_set (terminals s) name ?e"
    and b: "broken ?s1 = broken s"
    and dl: "dumps_limit ?s1 = dumps_limit s"
    and l: "sendlog ?s1 = sendlog s @ [(k, Registered name, k \<notin> broken s)]"
    and r: "snd (register_terminal s m k) = (if k \<in> broken s then Raised OSError else Returned)"
    using assms(2,3,4) d0
    by (simp_all add: register_terminal_def send_json_def sock_send_def Let_def)
  have look: "dict_get (terminals ?s1) name = Some ?e"
    by (simp add: t dict_get_set)
  have keys: "map fst (terminals ?s1) = map fst (terminals s)"
    using assms(5) by (simp add: t dict_set_keys)
  have ok: "registry_ok ?s1"
    using registry_ok_register [OF assms(1)] .
  have cnt: "length (filter (\<lambda>p. key_eq (fst p) name) (terminals ?s1)) = 1"
    using ok look by (simp add: registry_ok_def one_entry_per_key)
  have snd: "sendlog (fst (send_to_terminal ?s1 m2)) =
               sendlog ?s1 @ (if dumps_limit s < depth (m_content m2) then []
                              else [(k, Message (m_content m2), k \<notin> broken s)])"
    using assms(4,6) look b dl
    by (simp add: send_to_terminal_def send_json_def sock_send_def Let_def)
  from r l look keys cnt ok snd show ?thesis by simp
qed

theorem reregister_overwrites_witness:
  "registry_ok two_terminals
   \<and> dict_get (terminals two_terminals) (JStr ''A'') = Some (entry 3)
   \<and> map_option socket
        (dict_get (terminals (fst (register_terminal two_terminals (reg_msg ''A'') 5))) (JStr ''A''))
       = Some 5
   \<and> map fst (terminals (fst (register_terminal two_terminals (reg_msg ''A'') 5)))
       = [JStr ''A'', JStr ''B'']
   \<and> sendlog (fst (send_to_terminal (fst (register_terminal two_terminals (reg_msg ''A'') 5))
        (send_msg ''A'' (JStr ''hi''))))
       = sendlog two_terminals @
           [(5, Registered (JStr ''A''), True), (5, Message (JStr ''hi''), True)]"
  using reregister_overwrites [of two_terminals "reg_msg ''A''" "JStr ''A''" "entry 3"
      "send_msg ''A'' (JStr ''hi'')" 5]
  by (simp add: two_terminals_def fresh_def init_def entry_def reg_msg_def
      no_fields_def send_msg_def registry_ok_def register_terminal_def send_to_terminal_def
      send_json_def sock_send_def Let_def)

section \<open>Write failures\<close>

text \<open>
  Claim C5, as stated, fails for the callback write of \<^verbatim>\<open>complete\<close>: its handler catches the
  failure with \<^verbatim>\<open>pass\<close>. A has asked B to run \<^verbatim>\<open>ls\<close> with a callback and the peer of A has gone
  away; when B completes, the write of the callback to A fails, the handler returns, and A
  is still in the Registry.
\<close>

theorem complete_write_failure_keeps_registry:
  "snd (handle_completion dead_callback (complete_msg ''B'' ''ls'' JNull)) = Returned
   \<and> sendlog (fst (handle_completion dead_callback (complete_msg ''B'' ''ls'' JNull)))
       = sendlog dead_callback @ [(3, Callback (JStr ''B'') (JStr ''ls'') JNull, False)]
   \<and> dict_get (terminals (fst (handle_completion dead_callback (complete_msg ''B'' ''ls'' JNull))))
        (JStr ''A'') = Some (entry 3)"
  by (simp add: dead_callback_def pending_callback_def two_terminals_def fresh_def
      init_def entry_def complete_msg_def no_fields_def op_defs)

text \<open>
  Claim C5, amended. A failing write to a registered terminal is silent in all three
  handlers: the handler returns normally and makes no other write (the failed \<^verbatim>\<open>send\<close> call
  is the only one, and there is none when \<^verbatim>\<open>json.dumps\<close> has failed before it). The message
  write of \<^verbatim>\<open>send\<close> and the execute write of \<^verbatim>\<open>execute\<close> then remove the target from the
  Registry. The callback write of \<^verbatim>\<open>complete\<close> leaves the Registry as it is, the callback
  terminal included, and deletes the callback entry only.
\<close>

theorem write_failure_effects:
  assumes "dict_get (terminals s) t = Some e" and "socket e \<in> broken s" and "hashable t"
  shows "(m_target m = t \<longrightarrow>
            snd (send_to_terminal s m) = Returned
          \<and> sendlog (fst (send_to_terminal s m)) = sendlog s @
              (if dumps_limit s < msg_depth (Message (m_content m)) then []
               else [(socket e, Message (m_content m), False)])
          \<and> dict_get (terminals (fst (send_to_terminal s m))) t = None)
       \<and> (m_target m = t \<longrightarrow>
            snd (execute_command s m) = Returned
          \<and> sendlog (fst (execute_command s m)) = sendlog s @
              (if dumps_limit s < msg_depth (Execute (m_command m) (m_callback m)) then []
               else [(socket e, Execute (m_command m) (m_callback m), False)])
          \<and> dict_get (terminals (fst (execute_command s m))) t = None)
       \<and> (map_of (completion_callbacks s) (callback_key s (m_terminal m) (m_command m)) = Some t \<longrightarrow>
            snd (handle_completion s m) = Returned
          \<and> sendlog (fst (handle_completion s m)) = sendlog s @
              (if dumps_limit s < msg_depth (Callback (m_terminal m) (m_command m) (m_result m))
               then []
               else [(socket e, Callback (m_terminal m) (m_command m) (m_result m), False)])
          \<and> terminals (fst (handle_completion s m)) = terminals s
          \<and> map_of (completion_callbacks (fst (handle_completion s m)))
               (callback_key s (m_terminal m) (m_command m)) = None)"
proof (intro conjI impI)
  assume "m_target m = t"
  with assms show "snd (send_to_terminal s m) = Returned"
    "sendlog (fst (send_to_terminal s m)) = sendlog s @
              (if dumps_limit s < msg_depth (Message (m_content m)) then []
               else [(socket e, Message (m_content m), False)])"
    "dict_get (terminals (fst (send_to_terminal s m))) t = None"
    by (simp_all add: send_to_terminal_def send_json_def sock_send_def dict_get_del Let_def)
next
  assume "m_target m = t"
  with assms show "snd (execute_command s m) = Returned"
    "sendlog (fst (execute_command s m)) = sendlog s @
              (if dumps_limit s < msg_depth (Execute (m_command m) (m_callback m)) then []
               else [(socket e, Execute (m_command m) (m_callback m), False)])"
    "dict_get (terminals (fst (execute_command s m))) t = None"
    by (simp_all add: execute_command_def send_json_def sock_send_def dict_get_del Let_def)
next
  assume "map_of (completion_callbacks s) (callback_key s (m_terminal m) (m_command m)) = Some t"
  with assms show "snd (handle_completion s m) = Returned"
    "sendlog (fst (handle_completion s m)) = sendlog s @
              (if dumps_limit s < msg_depth (Callback (m_terminal m) (m_command m) (m_result m))
               then []
               else [(socket e, Callback (m_terminal m) (m_command m) (m_result m), False)])"
    "terminals (fst (handle_completion s m)) = terminals s"
    "map_of (completion_callbacks (fst (handle_completion s m)))
               (callback_key s (m_terminal m) (m_command m)) = None"
    by (simp_all add: handle_completion_def send_json_def sock_send_def delete_conv Let_def)
qed

theorem write_failure_effects_witness:
  "dict_get (terminals dead_target) (JStr ''B'') = Some (entry 4)
   \<and> 4 \<in> broken dead_target
   \<and> dict_get (terminals (fst (send_to_terminal dead_target
        (no_fields\<lparr>m_target := JStr ''B'', m_content := JStr ''hi'', m_command := JStr ''ls''\<rparr>))))
        (JStr ''B'') = None
   \<and> dict_get (terminals (fst (execute_command dead_target
        (no_fields\<lparr>m_target := JStr ''B'', m_content := JStr ''hi'', m_command := JStr ''ls''\<rparr>))))
        (JStr ''B'') = None
   \<and> map_of (completion_callbacks dead_callback) ''B:ls'' = Some (JStr ''A'')
   \<and> terminals (fst (handle_completion dead_callback (complete_msg ''B'' ''ls'' JNull)))
       = terminals two_terminals"
  using write_failure_effects [of dead_target "JStr ''B''" "entry 4"
      "no_fields\<lparr>m_target := JStr ''B'', m_content := JStr ''hi'', m_command := JStr ''ls''\<rparr>"]
    write_failure_effects [of dead_callback "JStr ''A''" "entry 3" "complete_msg ''B'' ''ls'' JNull"]
  by (simp add: two_terminals_def fresh_def init_def entry_def dead_target_def
      dead_callback_def pending_callback_def complete_msg_def no_fields_def callback_key_def)

section \<open>The end of a session\<close>

text \<open>
  Claim C1 says that when the connection of a registered terminal is closed by the peer, or
  its read fails, the broker removes the terminal's Registry entries, so that a later
  \<^verbatim>\<open>list\<close> does not name it. The code does not: leaving the loop of \<^verbatim>\<open>_handle_client\<close> only
  closes the socket, and closing a socket never changes the Registry. A registers on socket
  3 and its peer closes the connection; B registers on socket 4; a \<^verbatim>\<open>list\<close> request on
  socket 5 is answered with A and B, although \<^verbatim>\<open>_list_terminals\<close> is documented to list the
  active terminals.
\<close>

theorem closed_terminal_still_listed:
  "terminals (close_socket s k) = terminals s
   \<and> handle_client fresh 3 [Data (reg_msg ''A'')] =
       fresh\<lparr>terminals := [(JStr ''A'', entry 3)],
          broken := {3}, sendlog := [(3, Registered (JStr ''A''), True)]\<rparr>
   \<and> sendlog (fst (process_message
        (fst (process_message (handle_client fresh 3 [Data (reg_msg ''A'')]) (reg_msg ''B'') 4))
        (no_fields\<lparr>m_type := JStr ''list''\<rparr>) 5))
      = [(3, Registered (JStr ''A''), True), (4, Registered (JStr ''B''), True),
         (5, Listing [JStr ''A'', JStr ''B''], True)]"
  by (simp add: fresh_def init_def reg_msg_def no_fields_def entry_def op_defs)

end
